theory Spec2Isabelle
  imports Main
begin

section \<open>rockhound: the McMurray facies loader\<close>

text \<open>
  A shallow embedding of \<^verbatim>\<open>fetch_mcmurray_facies\<close> from
  \<^verbatim>\<open>rockhound/mcmurray_facies.py\<close>. The function calls three library
  collaborators (the registry's \<^verbatim>\<open>fetch\<close>, \<^verbatim>\<open>pandas.read_csv\<close> and
  \<^verbatim>\<open>DataFrame.rename\<close>) and \<^verbatim>\<open>print\<close>. The collaborators are parameters
  of the model; every call is recorded in a trace of events, every exception is a value.
\<close>

subsection \<open>Values, exceptions and events\<close>

text \<open>The Python exceptions that the function can meet; \<open>OtherError\<close> stands for any
  other exception class a collaborator raises (a download error, a parser error).\<close>

datatype exn =
    NotImplementedError
  | AttributeError
  | TypeError
  | IndexError
  | OtherError string

text \<open>What the registry's fetch gives back: one path, or the list of extracted paths.\<close>

datatype fetched = PathStr string | PathList "string list"

text \<open>A data frame: its column labels in order, and its rows of cells.\<close>

record table =
  columns :: "string list"
  cells :: "string list list"

text \<open>The dynamically typed return value: a data frame, a plain string, or the fetch result.\<close>

datatype pyval = DataFrame table | PyStr string | Fetched fetched

datatype engine = EngineDefault | EnginePython

datatype event =
    EvFetch string
  | EvReadCsv string engine
  | EvRename "string list"
  | EvPrint string

text \<open>
  The collaborators. \<open>registry_fetch name\<close> is
  \<^verbatim>\<open>REGISTRY.fetch(name, processor=Unzip())\<close>; \<open>read_csv path eng\<close> is
  \<^verbatim>\<open>pd.read_csv(path)\<close> with the given engine; \<open>df_rename t cols\<close> is
  \<^verbatim>\<open>t.rename(columns=cols)\<close>, called without \<^verbatim>\<open>inplace=True\<close>: it
  leaves the frame it is called on as it is and returns a new frame, or raises.
\<close>

record collaborators =
  registry_fetch :: "string \<Rightarrow> exn + fetched"
  read_csv :: "string \<Rightarrow> engine \<Rightarrow> exn + table"
  df_rename :: "table \<Rightarrow> string list \<Rightarrow> exn + table"

subsection \<open>The two column-name lists\<close>

definition spelled_out_columns :: "string list" where
  "spelled_out_columns =
    [''Unnamed: 0'', ''CALI=Caliper'', ''COND=Fluid Conductivity'',
     ''DELT=Travel Time Interval between Successive Shots'',
     ''DEPT=Depth'', ''DPHI=Density Porosity'',
     ''DT=Delta-T also called Slowness or Interval Transit Time'',
     ''GR=Gamma Ray'', ''ILD=Induction Deep Resistivity'', ''ILM=Induction Medium Resistivity'',
     ''NPHI=Thermal Neutron Porosity (original Ratio Method) in Selected Lithology'',
     ''PHID=Porosity-LDT NGT Tools'', ''RHOB=Bulk Density'',
     ''SFL=Spherically Focused Log Resitivity'',
     ''SFLU=SFL Resistivity Unaveraged'', ''SN=Short Normal Resistivity (16 inch spacing)'',
     ''SP=Spontaneous Potential'', ''UWI=Unique Well Identifier'',
     ''SitID=Site Identification Number'',
     ''lat=latitude'', ''lng=longitude'', ''Depth=Depth'', ''LithID=Lithology Identity Number'',
     ''W_Tar=Weight Percent Tar'', ''SW=Water Saturation'', ''VSH=Volume of Shale'',
     ''PHI=Porosity'',
     ''RW=Connate Water Resistivity'', ''lithName=Lithology Name'']"

definition abbreviated_columns :: "string list" where
  "abbreviated_columns =
    [''Unnamed: 0'', ''CALI'', ''COND'', ''DELT'', ''DEPT'', ''DPHI'', ''DT'', ''GR'',
     ''ILD'', ''ILM'', ''NPHI'', ''PHID'', ''RHOB'', ''SFL'', ''SFLU'', ''SN'', ''SP'', ''UWI'',
     ''SitID'', ''lat'', ''lng'', ''Depth'', ''LithID'', ''W_Tar'', ''SW'', ''VSH'', ''PHI'',
     ''RW'', ''lithName'']"



subsection \<open>The function\<close>

definition archive_name :: string where
  "archive_name = ''mcmurray_facies_v1.tar.gz''"

definition csv_path :: string where
  "csv_path = ''mcmurray_facies_v1/mcmurray_facies_v1.csv''"

text \<open>The string literal of the degraded path. The backslash at the end of its first source
  line joins the two lines, so the 17 blanks that indent the second line are part of it.\<close>

definition could_not_read :: string where
  "could_not_read =
     ''could not read hdf as the conversion of fname to a stringified version '' @
     replicate 17 (CHR '' '') @ ''didn't work well. Oops.''"

text \<open>\<^verbatim>\<open>fname[0]\<close>: the first element of a list, the first character of a string,
  \<^verbatim>\<open>IndexError\<close> when there is none.\<close>

fun getitem0 :: "fetched \<Rightarrow> exn + string" where
  "getitem0 (PathList []) = Inl IndexError"
| "getitem0 (PathList (p # ps)) = Inr p"
| "getitem0 (PathStr []) = Inl IndexError"
| "getitem0 (PathStr (c # cs)) = Inr [c]"

text \<open>\<^verbatim>\<open>str(x)\<close> of a value that is a string already.\<close>

definition py_str :: "string \<Rightarrow> string" where
  "py_str s = s"

text \<open>The inner \<^verbatim>\<open>try\<close>: \<^verbatim>\<open>pd.read_csv(str(fname[0]))\<close>, with
  \<^verbatim>\<open>NotImplementedError\<close> turned into the printed string.\<close>

definition read_fallback :: "collaborators \<Rightarrow> fetched \<Rightarrow> event list \<times> (exn + pyval)" where
  "read_fallback env fname =
     (case getitem0 fname of
        Inl e \<Rightarrow>
          (if e = NotImplementedError
           then ([EvPrint could_not_read], Inr (PyStr could_not_read))
           else ([], Inl e))
      | Inr p \<Rightarrow>
          (case read_csv env (py_str p) EngineDefault of
             Inr t \<Rightarrow> ([EvReadCsv (py_str p) EngineDefault], Inr (DataFrame t))
           | Inl e \<Rightarrow>
               (if e = NotImplementedError
                then ([EvReadCsv (py_str p) EngineDefault, EvPrint could_not_read],
                      Inr (PyStr could_not_read))
                else ([EvReadCsv (py_str p) EngineDefault], Inl e))))"

text \<open>The outer \<^verbatim>\<open>try\<close>: the CSV at the fixed relative path, read with the Python
  engine; on \<^verbatim>\<open>NotImplementedError\<close> the inner \<^verbatim>\<open>try\<close>.\<close>

definition read_data :: "collaborators \<Rightarrow> fetched \<Rightarrow> event list \<times> (exn + pyval)" where
  "read_data env fname =
     (case read_csv env csv_path EnginePython of
        Inr t \<Rightarrow> ([EvReadCsv csv_path EnginePython], Inr (DataFrame t))
      | Inl e \<Rightarrow>
          (if e = NotImplementedError
           then (case read_fallback env fname of
                   (tr, r) \<Rightarrow> (EvReadCsv csv_path EnginePython # tr, r))
           else ([EvReadCsv csv_path EnginePython], Inl e)))"

text \<open>
  The last statements: \<^verbatim>\<open>data.rename(columns=...)\<close> with one of the two lists, then
  \<^verbatim>\<open>return data\<close>. The call is an expression statement: what it returns is
  dropped and \<^verbatim>\<open>data\<close> is returned. A string has no attribute
  \<^verbatim>\<open>rename\<close>, so the attribute lookup raises before any call is made.
\<close>

definition rename_and_return :: "collaborators \<Rightarrow> bool \<Rightarrow> pyval \<Rightarrow> event list \<times> (exn + pyval)" where
  "rename_and_return env abbreviations_only data =
     (let cols = (if abbreviations_only then abbreviated_columns else spelled_out_columns) in
      case data of
        DataFrame t \<Rightarrow>
          (case df_rename env t cols of
             Inl e \<Rightarrow> ([EvRename cols], Inl e)
           | Inr renamed \<Rightarrow> ([EvRename cols], Inr data))
      | PyStr s \<Rightarrow> ([], Inl AttributeError)
      | Fetched f \<Rightarrow> ([], Inl AttributeError))"

definition fetch_mcmurray_facies ::
  "collaborators \<Rightarrow> bool \<Rightarrow> bool \<Rightarrow> event list \<times> (exn + pyval)" where
  "fetch_mcmurray_facies env abbreviations_only load =
     (case registry_fetch env archive_name of
        Inl e \<Rightarrow> ([EvFetch archive_name], Inl e)
      | Inr fname \<Rightarrow>
          (if \<not> load then ([EvFetch archive_name], Inr (Fetched fname))
           else
             (case read_data env fname of
                (tr, Inl e) \<Rightarrow> (EvFetch archive_name # tr, Inl e)
              | (tr, Inr data) \<Rightarrow>
                  (case rename_and_return env abbreviations_only data of
                     (tr', r) \<Rightarrow> (EvFetch archive_name # tr @ tr', r)))))"

text \<open>The two parts of a run: the events in order, and how the call ends.\<close>

definition trace_of :: "event list \<times> (exn + pyval) \<Rightarrow> event list" where
  "trace_of run = fst run"

definition outcome :: "event list \<times> (exn + pyval) \<Rightarrow> exn + pyval" where
  "outcome run = snd run"

text \<open>The \<^verbatim>\<open>read_csv\<close> calls of a trace, in order.\<close>

fun read_calls :: "event list \<Rightarrow> (string \<times> engine) list" where
  "read_calls [] = []"
| "read_calls (EvReadCsv p e # evs) = (p, e) # read_calls evs"
| "read_calls (ev # evs) = read_calls evs"

subsection \<open>The rename step as the specification words it\<close>

text \<open>
  Not taken from the code: step 6 of the specification, to be compared with
  \<open>rename_and_return\<close>. The mapping pairs the abbreviated list with the list the flag
  selects, position by position; a column whose name is a key of the mapping takes the new
  name, any other column keeps its name, and no column is ever missing an answer.
\<close>

definition rename_mapping :: "bool \<Rightarrow> (string \<times> string) list" where
  "rename_mapping abbreviations_only =
     zip abbreviated_columns
       (if abbreviations_only then abbreviated_columns else spelled_out_columns)"

definition spec_rename_step :: "bool \<Rightarrow> table \<Rightarrow> table" where
  "spec_rename_step abbreviations_only t =
     t\<lparr>columns :=
         map (\<lambda>c. case map_of (rename_mapping abbreviations_only) c of
                    None \<Rightarrow> c | Some new \<Rightarrow> new) (columns t)\<rparr>"

subsection \<open>Concrete collaborators\<close>

text \<open>
  \<^verbatim>\<open>DataFrame.rename\<close> as the function calls it, with a list for
  \<^verbatim>\<open>columns\<close>. A list is not a mapping, so pandas takes the argument for a function
  and applies it to every column label; a list cannot be called, and the call raises
  \<^verbatim>\<open>TypeError\<close>. A frame without columns has no label to apply it to, and a copy of
  the frame comes back. Either way the frame the method is called on stays as it is.
\<close>

definition pandas_rename :: "table \<Rightarrow> string list \<Rightarrow> exn + table" where
  "pandas_rename t cols = (if columns t = [] then Inr t else Inl TypeError)"

text \<open>The collaborators with that rename, for any fetch and any reader.\<close>

definition pandas_env ::
  "(string \<Rightarrow> exn + fetched) \<Rightarrow> (string \<Rightarrow> engine \<Rightarrow> exn + table) \<Rightarrow> collaborators" where
  "pandas_env f r = \<lparr>registry_fetch = f, read_csv = r, df_rename = pandas_rename\<rparr>"

text \<open>A frame with the header of the data set and no rows.\<close>

definition facies_frame :: table where
  "facies_frame = \<lparr>columns = abbreviated_columns, cells = []\<rparr>"

text \<open>Everything works: the archive is fetched and every read gives \<open>facies_frame\<close>.\<close>

definition loaded_env :: "(table \<Rightarrow> string list \<Rightarrow> exn + table) \<Rightarrow> collaborators" where
  "loaded_env r =
     \<lparr>registry_fetch = (\<lambda>name. Inr (PathList [csv_path])),
      read_csv = (\<lambda>path eng. Inr facies_frame),
      df_rename = r\<rparr>"

text \<open>Every read raises \<^verbatim>\<open>NotImplementedError\<close>.\<close>

definition unreadable_env :: "(table \<Rightarrow> string list \<Rightarrow> exn + table) \<Rightarrow> collaborators" where
  "unreadable_env r =
     \<lparr>registry_fetch = (\<lambda>name. Inr (PathList [csv_path])),
      read_csv = (\<lambda>path eng. Inl NotImplementedError),
      df_rename = r\<rparr>"

text \<open>The read with the Python engine raises \<^verbatim>\<open>NotImplementedError\<close>; the
  read with the default engine ends as \<open>second\<close> says.\<close>

definition fallback_env :: "exn + table \<Rightarrow> collaborators" where
  "fallback_env second =
     \<lparr>registry_fetch = (\<lambda>name. Inr (PathList [''cache/facies.csv''])),
      read_csv = (\<lambda>path eng. if eng = EnginePython then Inl NotImplementedError else second),
      df_rename = pandas_rename\<rparr>"

text \<open>The download fails.\<close>

definition offline_env :: collaborators where
  "offline_env =
     \<lparr>registry_fetch = (\<lambda>name. Inl (OtherError ''HTTPError'')),
      read_csv = (\<lambda>path eng. Inr facies_frame),
      df_rename = pandas_rename\<rparr>"

text \<open>The parser rejects the file with an error of its own.\<close>

definition malformed_env :: collaborators where
  "malformed_env =
     \<lparr>registry_fetch = (\<lambda>name. Inr (PathList [csv_path])),
      read_csv = (\<lambda>path eng. Inl (OtherError ''ParserError'')),
      df_rename = pandas_rename\<rparr>"

section \<open>Properties\<close>

subsection \<open>Basic facts\<close>

lemma len_abbr: "length abbreviated_columns = 29"
  by (simp add: abbreviated_columns_def)

lemma len_spelled: "length spelled_out_columns = 29"
  by (simp add: spelled_out_columns_def)

lemma lists_pairwise:
  "list_all2 (\<lambda>a s. \<exists>rest. rest \<noteq> [] \<and> s = a @ ''='' @ rest)
     (tl abbreviated_columns) (tl spelled_out_columns)"
  by (simp add: abbreviated_columns_def spelled_out_columns_def)

lemma facies_columns: "columns facies_frame = abbreviated_columns"
  by (simp add: facies_frame_def)

lemma gr_abbreviated: "abbreviated_columns ! 7 = ''GR'' \<and> abbreviated_columns ! 17 = ''UWI''"
  by (simp add: abbreviated_columns_def)

lemma gr_spelled_out:
  "spelled_out_columns ! 7 = ''GR=Gamma Ray'' \<and>
   spelled_out_columns ! 17 = ''UWI=Unique Well Identifier''"
  by (simp add: spelled_out_columns_def)

text \<open>What \<open>rename_and_return\<close> gives back, when it gives anything back, is the value it
  was given, and that value is a frame.\<close>

lemma rename_and_return_value:
  "rename_and_return env ab data = (tr, Inr v) \<Longrightarrow> v = data \<and> (\<exists>t. data = DataFrame t)"
  by (auto simp: rename_and_return_def Let_def split: pyval.splits sum.splits)

lemma rename_and_return_frame:
  "(\<exists>e. snd (rename_and_return env ab (DataFrame t)) = Inl e) \<or>
   snd (rename_and_return env ab (DataFrame t)) = Inr (DataFrame t)"
  by (cases "df_rename env t (if ab then abbreviated_columns else spelled_out_columns)")
     (simp_all add: rename_and_return_def Let_def)

text \<open>A value returned with \<^verbatim>\<open>load=True\<close> is the frame that the reads produced.\<close>

lemma fetch_load_value:
  assumes "outcome (fetch_mcmurray_facies env ab True) = Inr v"
  shows "\<exists>fname tr t. registry_fetch env archive_name = Inr fname \<and>
           read_data env fname = (tr, Inr (DataFrame t)) \<and> v = DataFrame t"
proof -
  from assms obtain fname where f: "registry_fetch env archive_name = Inr fname"
    by (cases "registry_fetch env archive_name") (auto simp: fetch_mcmurray_facies_def outcome_def)
  obtain tr r where rd: "read_data env fname = (tr, r)" by (cases "read_data env fname")
  from assms f rd obtain data where d: "r = Inr data"
    by (cases r) (auto simp: fetch_mcmurray_facies_def outcome_def)
  obtain tr' r' where rn: "rename_and_return env ab data = (tr', r')"
    by (cases "rename_and_return env ab data")
  from assms f rd d rn have "r' = Inr v"
    by (simp add: fetch_mcmurray_facies_def outcome_def)
  with rn rename_and_return_value have "v = data \<and> (\<exists>t. data = DataFrame t)" by blast
  with f rd d show ?thesis by auto
qed

text \<open>With the rename of pandas, a frame that has a column never comes back.\<close>

lemma facies_frame_has_columns: "columns facies_frame \<noteq> []"
  by (simp add: facies_frame_def abbreviated_columns_def)

lemma pandas_rename_and_return:
  assumes "df_rename env = pandas_rename"
  shows "rename_and_return env ab (DataFrame t) =
     ([EvRename (if ab then abbreviated_columns else spelled_out_columns)],
      if columns t = [] then Inr (DataFrame t) else Inl TypeError)"
  using assms by (simp add: rename_and_return_def pandas_rename_def Let_def)

lemma pandas_rename_flag:
  assumes "df_rename env = pandas_rename"
  shows "snd (rename_and_return env True data) = snd (rename_and_return env False data)"
  using assms by (cases data) (simp_all add: rename_and_return_def pandas_rename_def Let_def)

lemma outcome_load:
  assumes "registry_fetch env archive_name = Inr fname"
  shows "outcome (fetch_mcmurray_facies env ab True) =
     (case snd (read_data env fname) of
        Inl e \<Rightarrow> Inl e
      | Inr data \<Rightarrow> snd (rename_and_return env ab data))"
  using assms
  by (simp add: fetch_mcmurray_facies_def outcome_def split: prod.splits sum.splits)

lemma loaded_env_outcome:
  "(\<exists>e. outcome (fetch_mcmurray_facies (loaded_env r) ab True) = Inl e) \<or>
   outcome (fetch_mcmurray_facies (loaded_env r) ab True) = Inr (DataFrame facies_frame)"
  by (cases "r facies_frame (if ab then abbreviated_columns else spelled_out_columns)")
     (simp_all add: fetch_mcmurray_facies_def loaded_env_def read_data_def rename_and_return_def
        outcome_def Let_def)

lemma spec_rename_facies:
  "columns (spec_rename_step False facies_frame) = spelled_out_columns"
  by (simp add: spec_rename_step_def rename_mapping_def facies_frame_def
      abbreviated_columns_def spelled_out_columns_def)

subsection \<open>The reads in a trace\<close>

lemma read_calls_append: "read_calls (xs @ ys) = read_calls xs @ read_calls ys"
  by (induction xs rule: read_calls.induct) auto

lemma read_calls_rename: "read_calls (fst (rename_and_return env ab data)) = []"
  by (simp add: rename_and_return_def Let_def split: pyval.splits sum.splits)

lemma read_calls_fallback:
  "read_calls (fst (read_fallback env fname)) =
     (case getitem0 fname of Inl e \<Rightarrow> [] | Inr p \<Rightarrow> [(py_str p, EngineDefault)])"
  by (simp add: read_fallback_def split: sum.splits)

lemma read_calls_read_data:
  "read_calls (fst (read_data env fname)) =
     (csv_path, EnginePython) #
     (if read_csv env csv_path EnginePython = Inl NotImplementedError
      then (case getitem0 fname of Inl e \<Rightarrow> [] | Inr p \<Rightarrow> [(py_str p, EngineDefault)])
      else [])"
  using read_calls_fallback [of env fname]
  by (auto simp: read_data_def split: sum.splits prod.splits)

lemma trace_load:
  assumes "registry_fetch env archive_name = Inr fname"
  shows "\<exists>tr'. trace_of (fetch_mcmurray_facies env ab True) =
           EvFetch archive_name # fst (read_data env fname) @ tr' \<and> read_calls tr' = []"
proof (cases "read_data env fname")
  case (Pair tr r)
  show ?thesis
  proof (cases r)
    case (Inl e)
    with Pair assms show ?thesis
      by (simp add: fetch_mcmurray_facies_def trace_of_def)
  next
    case (Inr data)
    obtain tr' r' where rn: "rename_and_return env ab data = (tr', r')"
      by (cases "rename_and_return env ab data")
    with read_calls_rename [of env ab data] have "read_calls tr' = []" by simp
    with Pair Inr assms rn show ?thesis
      by (simp add: fetch_mcmurray_facies_def trace_of_def)
  qed
qed

section \<open>The claims\<close>

subsection \<open>Renamed columns (C1, C3)\<close>

text \<open>
  Claim C1 says that with \<^verbatim>\<open>abbreviations_only=False\<close> the returned frame carries
  the spelled-out names (\<^verbatim>\<open>GR\<close> becomes \<^verbatim>\<open>GR=Gamma Ray\<close>,
  \<^verbatim>\<open>UWI\<close> becomes \<^verbatim>\<open>UWI=Unique Well Identifier\<close>). The code does not do
  that. When the CSV is read into a frame whose header is the abbreviated list, then
  whatever the rename collaborator does, the call either ends in an exception or returns
  that very frame, in which column 7 is still \<^verbatim>\<open>GR\<close> and column 17 still
  \<^verbatim>\<open>UWI\<close>.
\<close>

theorem spelled_out_names_not_applied:
  "((\<exists>e. outcome (fetch_mcmurray_facies (loaded_env r) False True) = Inl e) \<or>
    outcome (fetch_mcmurray_facies (loaded_env r) False True) = Inr (DataFrame facies_frame)) \<and>
   columns facies_frame ! 7 = ''GR'' \<and> spelled_out_columns ! 7 = ''GR=Gamma Ray'' \<and>
   columns facies_frame ! 17 = ''UWI'' \<and>
   spelled_out_columns ! 17 = ''UWI=Unique Well Identifier''"
  using loaded_env_outcome [of r False]
  by (simp add: facies_columns gr_abbreviated gr_spelled_out)

text \<open>
  Claim C3 says that the rename step builds a mapping from old to new names by position and
  renames the columns found in it. The code builds no mapping: it hands the bare list to
  the rename collaborator and drops what comes back. On the frame with the abbreviated
  header the step as the specification words it gives the spelled-out header; the step of
  the code either raises or gives back the frame unchanged, and never gives the frame of
  the specification.
\<close>

theorem rename_step_builds_no_mapping:
  "((\<exists>e. snd (rename_and_return env False (DataFrame facies_frame)) = Inl e) \<or>
    snd (rename_and_return env False (DataFrame facies_frame)) = Inr (DataFrame facies_frame)) \<and>
   columns facies_frame ! 7 = ''GR'' \<and>
   columns (spec_rename_step False facies_frame) ! 7 = ''GR=Gamma Ray'' \<and>
   snd (rename_and_return env False (DataFrame facies_frame))
     \<noteq> Inr (DataFrame (spec_rename_step False facies_frame))"
proof -
  have ne: "facies_frame \<noteq> spec_rename_step False facies_frame"
  proof
    assume "facies_frame = spec_rename_step False facies_frame"
    then have "columns facies_frame ! 7 = columns (spec_rename_step False facies_frame) ! 7"
      by simp
    then show False
      by (simp add: spec_rename_facies facies_columns gr_abbreviated gr_spelled_out)
  qed
  from rename_and_return_frame [of env False facies_frame] ne show ?thesis
    by (auto simp: spec_rename_facies facies_columns gr_abbreviated gr_spelled_out)
qed

subsection \<open>Both reads unsupported (C2)\<close>

text \<open>
  Claim C2 says that when both reads raise \<^verbatim>\<open>NotImplementedError\<close> the function
  returns the string and no exception escapes. The code prints the string, and then calls
  \<^verbatim>\<open>rename\<close> on it: the run ends in \<^verbatim>\<open>AttributeError\<close>, for either
  value of the flag and whatever the rename collaborator is.
\<close>

theorem both_reads_unsupported_raises:
  assumes "registry_fetch env archive_name = Inr fname"
    and "read_csv env csv_path EnginePython = Inl NotImplementedError"
    and "getitem0 fname = Inr p"
    and "read_csv env (py_str p) EngineDefault = Inl NotImplementedError"
  shows "fetch_mcmurray_facies env abbreviations_only True =
     ([EvFetch archive_name, EvReadCsv csv_path EnginePython,
       EvReadCsv (py_str p) EngineDefault, EvPrint could_not_read],
      Inl AttributeError)"
  using assms
  by (simp add: fetch_mcmurray_facies_def read_data_def read_fallback_def
      rename_and_return_def Let_def)

theorem both_reads_unsupported_witness:
  "registry_fetch (unreadable_env pandas_rename) archive_name = Inr (PathList [csv_path]) \<and>
   read_csv (unreadable_env pandas_rename) csv_path EnginePython = Inl NotImplementedError \<and>
   getitem0 (PathList [csv_path]) = Inr csv_path \<and>
   read_csv (unreadable_env pandas_rename) (py_str csv_path) EngineDefault = Inl NotImplementedError \<and>
   fetch_mcmurray_facies (unreadable_env pandas_rename) True True =
     ([EvFetch archive_name, EvReadCsv csv_path EnginePython,
       EvReadCsv (py_str csv_path) EngineDefault, EvPrint could_not_read],
      Inl AttributeError)"
proof -
  have a: "registry_fetch (unreadable_env pandas_rename) archive_name = Inr (PathList [csv_path])"
    by (simp add: unreadable_env_def)
  have b: "read_csv (unreadable_env pandas_rename) csv_path EnginePython = Inl NotImplementedError"
    by (simp add: unreadable_env_def)
  have c: "getitem0 (PathList [csv_path]) = Inr csv_path"
    by simp
  have d: "read_csv (unreadable_env pandas_rename) (py_str csv_path) EngineDefault
      = Inl NotImplementedError"
    by (simp add: unreadable_env_def)
  from both_reads_unsupported_raises [OF a b c d, of True] a b c d show ?thesis
    by simp
qed

subsection \<open>No load (C4)\<close>

text \<open>
  Claim C4: with \<^verbatim>\<open>load=False\<close> the function returns what the fetch returned,
  whatever its shape and whatever \<^verbatim>\<open>abbreviations_only\<close> is, and the only event
  of the run is the fetch: no CSV is read.
\<close>

theorem load_false_returns_fetch_result:
  assumes "registry_fetch env archive_name = Inr fname"
  shows "outcome (fetch_mcmurray_facies env abbreviations_only False) = Inr (Fetched fname) \<and>
         trace_of (fetch_mcmurray_facies env abbreviations_only False) = [EvFetch archive_name] \<and>
         read_calls (trace_of (fetch_mcmurray_facies env abbreviations_only False)) = []"
  using assms by (simp add: fetch_mcmurray_facies_def outcome_def trace_of_def)

theorem load_false_witness:
  "registry_fetch (loaded_env pandas_rename) archive_name = Inr (PathList [csv_path]) \<and>
   outcome (fetch_mcmurray_facies (loaded_env pandas_rename) True False)
     = Inr (Fetched (PathList [csv_path])) \<and>
   read_calls (trace_of (fetch_mcmurray_facies (loaded_env pandas_rename) True False)) = []"
proof -
  have h: "registry_fetch (loaded_env pandas_rename) archive_name = Inr (PathList [csv_path])"
    by (simp add: loaded_env_def)
  from load_false_returns_fetch_result [OF h, of True] h show ?thesis by simp
qed

subsection \<open>The two lists (C5, C8)\<close>

text \<open>
  Claim C5: the two lists correspond by position. They have the same length; the entry at
  index 0, the index column, is the same in both; and at every other index \<open>N\<close> the
  spelled-out entry is the abbreviated entry, then \<^verbatim>\<open>=\<close>, then a text that is
  not empty.
\<close>

theorem column_lists_correspond:
  "length spelled_out_columns = length abbreviated_columns \<and>
   spelled_out_columns ! 0 = abbreviated_columns ! 0 \<and>
   (\<forall>N. 0 < N \<and> N < length abbreviated_columns \<longrightarrow>
      (\<exists>rest. rest \<noteq> [] \<and>
         spelled_out_columns ! N = abbreviated_columns ! N @ ''='' @ rest))"
proof (intro conjI allI impI)
  show "length spelled_out_columns = length abbreviated_columns"
    by (simp add: len_abbr len_spelled)
  show "spelled_out_columns ! 0 = abbreviated_columns ! 0"
    by (simp add: abbreviated_columns_def spelled_out_columns_def)
next
  fix N assume N: "0 < N \<and> N < length abbreviated_columns"
  then obtain M where M: "N = Suc M" by (cases N) auto
  with N have "M < length (tl abbreviated_columns)" by simp
  from list_all2_nthD [OF lists_pairwise this]
  obtain rest where "rest \<noteq> []"
    "tl spelled_out_columns ! M = tl abbreviated_columns ! M @ ''='' @ rest"
    by blast
  moreover have "tl spelled_out_columns ! M = spelled_out_columns ! N"
    using N M by (simp add: nth_tl len_spelled len_abbr)
  moreover have "tl abbreviated_columns ! M = abbreviated_columns ! N"
    using N M by (simp add: nth_tl len_abbr)
  ultimately show "\<exists>rest. rest \<noteq> [] \<and>
      spelled_out_columns ! N = abbreviated_columns ! N @ ''='' @ rest"
    by auto
qed

theorem column_lists_correspond_witness:
  "(0::nat) < 7 \<and> 7 < length abbreviated_columns \<and> abbreviated_columns ! 7 = ''GR'' \<and>
   (\<exists>rest. rest \<noteq> [] \<and> spelled_out_columns ! 7 = ''GR'' @ ''='' @ rest)"
proof -
  have h: "(0::nat) < 7 \<and> 7 < length abbreviated_columns"
    by (simp add: len_abbr)
  from column_lists_correspond [THEN conjunct2, THEN conjunct2, rule_format, OF h] h
  show ?thesis by (simp add: gr_abbreviated)
qed


subsection \<open>Order of the reads and what is caught (C6, C7)\<close>

text \<open>
  Claim C6: with \<^verbatim>\<open>load=True\<close>, after the fetch the first thing the function
  does is to read the fixed relative path with the Python engine. A second read happens
  only if that first read raised \<^verbatim>\<open>NotImplementedError\<close>, and it reads
  \<^verbatim>\<open>str(fname[0])\<close>, the first element of the fetch result as a string. There is
  never a third read.
\<close>

theorem parse_attempts_in_order:
  assumes "registry_fetch env archive_name = Inr fname"
  shows "take 2 (trace_of (fetch_mcmurray_facies env abbreviations_only True)) =
           [EvFetch archive_name, EvReadCsv csv_path EnginePython] \<and>
         read_calls (trace_of (fetch_mcmurray_facies env abbreviations_only True)) =
           (csv_path, EnginePython) #
           (if read_csv env csv_path EnginePython = Inl NotImplementedError
            then (case getitem0 fname of
                    Inl e \<Rightarrow> [] | Inr p \<Rightarrow> [(py_str p, EngineDefault)])
            else [])"
proof
  from trace_load [OF assms, of abbreviations_only]
  obtain tr' where tr: "trace_of (fetch_mcmurray_facies env abbreviations_only True) =
      EvFetch archive_name # fst (read_data env fname) @ tr'" and e: "read_calls tr' = []"
    by blast
  have "\<exists>rest. fst (read_data env fname) = EvReadCsv csv_path EnginePython # rest"
    by (auto simp: read_data_def split: sum.splits prod.splits)
  with tr show "take 2 (trace_of (fetch_mcmurray_facies env abbreviations_only True)) =
           [EvFetch archive_name, EvReadCsv csv_path EnginePython]"
    by auto
  from tr e show "read_calls (trace_of (fetch_mcmurray_facies env abbreviations_only True)) =
           (csv_path, EnginePython) #
           (if read_csv env csv_path EnginePython = Inl NotImplementedError
            then (case getitem0 fname of
                    Inl e \<Rightarrow> [] | Inr p \<Rightarrow> [(py_str p, EngineDefault)])
            else [])"
    by (simp add: read_calls_append read_calls_read_data)
qed

theorem parse_attempts_witness:
  "registry_fetch (fallback_env (Inr facies_frame)) archive_name
     = Inr (PathList [''cache/facies.csv'']) \<and>
   read_calls (trace_of (fetch_mcmurray_facies (fallback_env (Inr facies_frame)) True True)) =
     [(csv_path, EnginePython), (''cache/facies.csv'', EngineDefault)] \<and>
   registry_fetch (loaded_env pandas_rename) archive_name = Inr (PathList [csv_path]) \<and>
   read_calls (trace_of (fetch_mcmurray_facies (loaded_env pandas_rename) True True)) =
     [(csv_path, EnginePython)]"
proof -
  have h1: "registry_fetch (fallback_env (Inr facies_frame)) archive_name
      = Inr (PathList [''cache/facies.csv''])"
    by (simp add: fallback_env_def)
  have h2: "registry_fetch (loaded_env pandas_rename) archive_name = Inr (PathList [csv_path])"
    by (simp add: loaded_env_def)
  have r1: "read_csv (fallback_env (Inr facies_frame)) csv_path EnginePython
      = Inl NotImplementedError"
    by (simp add: fallback_env_def)
  have r2: "read_csv (loaded_env pandas_rename) csv_path EnginePython = Inr facies_frame"
    by (simp add: loaded_env_def)
  from parse_attempts_in_order [OF h1, of True] parse_attempts_in_order [OF h2, of True]
    h1 h2 r1 r2
  show ?thesis by (simp add: py_str_def)
qed

text \<open>
  Claim C7: only \<^verbatim>\<open>NotImplementedError\<close> from a read is caught. An exception of
  the fetch ends the call, with or without \<^verbatim>\<open>load\<close>; so does any other exception
  of the first read; and so does any other exception of the second read, made after the
  first one raised \<^verbatim>\<open>NotImplementedError\<close>.
\<close>

theorem only_not_implemented_is_caught:
  "(registry_fetch env archive_name = Inl e \<longrightarrow>
      outcome (fetch_mcmurray_facies env abbreviations_only load) = Inl e) \<and>
   (registry_fetch env archive_name = Inr fname \<and>
    read_csv env csv_path EnginePython = Inl e \<and> e \<noteq> NotImplementedError \<longrightarrow>
      outcome (fetch_mcmurray_facies env abbreviations_only True) = Inl e) \<and>
   (registry_fetch env archive_name = Inr fname \<and>
    read_csv env csv_path EnginePython = Inl NotImplementedError \<and>
    getitem0 fname = Inr p \<and>
    read_csv env (py_str p) EngineDefault = Inl e \<and> e \<noteq> NotImplementedError \<longrightarrow>
      outcome (fetch_mcmurray_facies env abbreviations_only True) = Inl e)"
  by (simp add: fetch_mcmurray_facies_def outcome_def read_data_def read_fallback_def)

theorem only_not_implemented_witness:
  "registry_fetch offline_env archive_name = Inl (OtherError ''HTTPError'') \<and>
   outcome (fetch_mcmurray_facies offline_env True True) = Inl (OtherError ''HTTPError'') \<and>
   outcome (fetch_mcmurray_facies offline_env True False) = Inl (OtherError ''HTTPError'') \<and>
   read_csv malformed_env csv_path EnginePython = Inl (OtherError ''ParserError'') \<and>
   outcome (fetch_mcmurray_facies malformed_env True True) = Inl (OtherError ''ParserError'') \<and>
   read_csv (fallback_env (Inl (OtherError ''ParserError''))) csv_path EnginePython
     = Inl NotImplementedError \<and>
   read_csv (fallback_env (Inl (OtherError ''ParserError''))) ''cache/facies.csv'' EngineDefault
     = Inl (OtherError ''ParserError'') \<and>
   outcome (fetch_mcmurray_facies (fallback_env (Inl (OtherError ''ParserError''))) True True)
     = Inl (OtherError ''ParserError'')"
proof -
  let ?fb = "fallback_env (Inl (OtherError ''ParserError''))"
  have a: "registry_fetch offline_env archive_name = Inl (OtherError ''HTTPError'')"
    by (simp add: offline_env_def)
  have b: "registry_fetch malformed_env archive_name = Inr (PathList [csv_path]) \<and>
      read_csv malformed_env csv_path EnginePython = Inl (OtherError ''ParserError'') \<and>
      OtherError ''ParserError'' \<noteq> NotImplementedError"
    by (simp add: malformed_env_def)
  have c: "registry_fetch ?fb archive_name = Inr (PathList [''cache/facies.csv'']) \<and>
      read_csv ?fb csv_path EnginePython = Inl NotImplementedError \<and>
      getitem0 (PathList [''cache/facies.csv'']) = Inr ''cache/facies.csv'' \<and>
      read_csv ?fb (py_str ''cache/facies.csv'') EngineDefault = Inl (OtherError ''ParserError'') \<and>
      OtherError ''ParserError'' \<noteq> NotImplementedError"
    by (simp add: fallback_env_def py_str_def)
  note t1 = only_not_implemented_is_caught [THEN conjunct1, rule_format, OF a]
  note t2 = only_not_implemented_is_caught [THEN conjunct2, THEN conjunct1, rule_format, OF b]
  note t3 = only_not_implemented_is_caught [THEN conjunct2, THEN conjunct2, rule_format, OF c]
  from a b c t1 [of True True] t1 [of True False] t2 [of True] t3 [of True]
  show ?thesis by (simp add: py_str_def)
qed

subsection \<open>The frame that is returned (C9, C10)\<close>

text \<open>
  Claim C9 says that the table the function returns has as many columns as the table that
  entered the rename step. With the rename of pandas no such table is returned: whenever
  the reads give a frame that has a column, the rename call is made and the run ends in
  \<^verbatim>\<open>TypeError\<close>, for either value of \<^verbatim>\<open>abbreviations_only\<close>.
\<close>

theorem rename_step_returns_no_table:
  assumes "df_rename env = pandas_rename"
    and "registry_fetch env archive_name = Inr fname"
    and "read_data env fname = (tr, Inr (DataFrame t))"
    and "columns t \<noteq> []"
  shows "fetch_mcmurray_facies env abbreviations_only True =
     (EvFetch archive_name # tr @
        [EvRename (if abbreviations_only then abbreviated_columns else spelled_out_columns)],
      Inl TypeError)"
  using assms(2,3,4)
  by (simp add: fetch_mcmurray_facies_def pandas_rename_and_return [OF assms(1)])

theorem rename_step_returns_no_table_witness:
  "df_rename (loaded_env pandas_rename) = pandas_rename \<and>
   registry_fetch (loaded_env pandas_rename) archive_name = Inr (PathList [csv_path]) \<and>
   read_data (loaded_env pandas_rename) (PathList [csv_path]) =
     ([EvReadCsv csv_path EnginePython], Inr (DataFrame facies_frame)) \<and>
   length (columns facies_frame) = 29 \<and>
   fetch_mcmurray_facies (loaded_env pandas_rename) False True =
     ([EvFetch archive_name, EvReadCsv csv_path EnginePython, EvRename spelled_out_columns],
      Inl TypeError)"
proof -
  have a: "df_rename (loaded_env pandas_rename) = pandas_rename"
    by (simp add: loaded_env_def)
  have b: "registry_fetch (loaded_env pandas_rename) archive_name = Inr (PathList [csv_path])"
    by (simp add: loaded_env_def)
  have c: "read_data (loaded_env pandas_rename) (PathList [csv_path]) =
     ([EvReadCsv csv_path EnginePython], Inr (DataFrame facies_frame))"
    by (simp add: loaded_env_def read_data_def)
  have d: "length (columns facies_frame) = 29"
    by (simp add: facies_columns len_abbr)
  from rename_step_returns_no_table [OF a b c facies_frame_has_columns, of False] a b c d
  show ?thesis by simp
qed

text \<open>
  Claim C10: for every fetch and every reader, with \<^verbatim>\<open>load=True\<close> and the rename
  of pandas, the call with \<^verbatim>\<open>abbreviations_only=True\<close> and the call with
  \<^verbatim>\<open>abbreviations_only=False\<close> end the same way: both return the same value, or
  both raise the same exception. The flag only chooses the list that is handed to the
  rename call, and what that call gives back is dropped.
\<close>

theorem flag_does_not_change_outcome:
  "outcome (fetch_mcmurray_facies (pandas_env f r) True True) =
   outcome (fetch_mcmurray_facies (pandas_env f r) False True)"
proof (cases "f archive_name")
  case (Inl e)
  then show ?thesis
    by (simp add: fetch_mcmurray_facies_def outcome_def pandas_env_def)
next
  case (Inr fname)
  then have f: "registry_fetch (pandas_env f r) archive_name = Inr fname"
    by (simp add: pandas_env_def)
  have p: "df_rename (pandas_env f r) = pandas_rename"
    by (simp add: pandas_env_def)
  show ?thesis
    by (simp add: outcome_load [OF f] pandas_rename_flag [OF p] split: sum.splits)
qed

end
